theory Spec2Isabelle
  imports
    Complex_Main
    "HOL-Library.Char_ord"
    "HOL-Library.List_Lexorder"
    "HOL-Library.Product_Lexorder"
begin

section \<open>Values and tables\<close>

text \<open>
  A float64 cell is modelled as an exact real, or \<open>None\<close> for NaN, the value pandas uses for
  a missing number. The operations below treat NaN as IEEE arithmetic does: arithmetic with a
  NaN operand gives NaN, and every ordering comparison with a NaN operand is false. On numbers
  they are exact and do not round; the properties that depend on the numeric result of an
  operation are stated over float64 arithmetic taken as a parameter, further down.
\<close>

type_synonym float = "real option"

fun fsub :: "float \<Rightarrow> float \<Rightarrow> float" where
  "fsub (Some x) (Some y) = Some (x - y)"
| "fsub _ _ = None"

fun fadd :: "float \<Rightarrow> float \<Rightarrow> float" where
  "fadd (Some x) (Some y) = Some (x + y)"
| "fadd _ _ = None"

fun fneg :: "float \<Rightarrow> float" where
  "fneg (Some x) = Some (- x)"
| "fneg None = None"

fun fabs :: "float \<Rightarrow> float" where
  "fabs (Some x) = Some \<bar>x\<bar>"
| "fabs None = None"

fun fgt :: "float \<Rightarrow> real \<Rightarrow> bool" where
  "fgt (Some x) y = (x > y)"
| "fgt None y = False"

fun fge :: "float \<Rightarrow> real \<Rightarrow> bool" where
  "fge (Some x) y = (x \<ge> y)"
| "fge None y = False"

text \<open>
  The play-by-play table. The program reads or writes six columns by name; each of them may be
  absent from the schema (\<open>None\<close>) and, when present, holds one cell per row. Key columns
  hold strings or a missing value, point-value columns hold floats, of type \<open>'f\<close>. Columns
  the program never touches are kept by name only. \<open>nrows\<close> is the length of the index,
  which a table has even when it has no column.
\<close>

record 'f gframe =
  nrows :: nat
  game_id_col :: "string option list option"
  posteam_col :: "string option list option"
  defteam_col :: "string option list option"
  ep_col :: "'f list option"
  ep_before_col :: "'f list option"
  epa_col :: "'f list option"
  other_columns :: "string list"

type_synonym frame = "float gframe"

definition col_ok :: "nat \<Rightarrow> 'a list option \<Rightarrow> bool" where
  "col_ok n c = (case c of None \<Rightarrow> True | Some xs \<Rightarrow> length xs = n)"

definition wf_frame :: "'f gframe \<Rightarrow> bool" where
  "wf_frame df \<longleftrightarrow>
     col_ok (nrows df) (game_id_col df) \<and> col_ok (nrows df) (posteam_col df) \<and>
     col_ok (nrows df) (defteam_col df) \<and> col_ok (nrows df) (ep_col df) \<and>
     col_ok (nrows df) (ep_before_col df) \<and> col_ok (nrows df) (epa_col df)"

definition no_columns :: "'f gframe \<Rightarrow> bool" where
  "no_columns df \<longleftrightarrow>
     game_id_col df = None \<and> posteam_col df = None \<and> defteam_col df = None \<and>
     ep_col df = None \<and> ep_before_col df = None \<and> epa_col df = None \<and>
     other_columns df = []"

text \<open>\<open>DataFrame.empty\<close>: true when either axis has length zero.\<close>

definition frame_empty :: "'f gframe \<Rightarrow> bool" where
  "frame_empty df \<longleftrightarrow> nrows df = 0 \<or> no_columns df"

text \<open>
  \<open>df[c] = v\<close> with a scalar \<open>v\<close> replaces or creates column \<open>c\<close> with \<open>v\<close> in every
  row of the index; on an index of length zero the column has no cell.
\<close>

definition scalar_column :: "'f gframe \<Rightarrow> 'a \<Rightarrow> 'a option list option" where
  "scalar_column df v = Some (replicate (nrows df) (Some v))"

section \<open>Configuration\<close>

definition LATEST_AVAILABLE_SEASON :: int where
  "LATEST_AVAILABLE_SEASON = 2024"

definition INITIAL_EPA :: real where
  "INITIAL_EPA = 0.0"

section \<open>calculate_epa\<close>

definition mock_all :: "frame \<Rightarrow> frame" where
  "mock_all df =
     df\<lparr>epa_col := scalar_column df INITIAL_EPA,
        defteam_col := scalar_column df ''DEF'',
        posteam_col := scalar_column df ''OFF'',
        game_id_col := scalar_column df ''MOCK''\<rparr>"

definition mock_missing :: "frame \<Rightarrow> frame" where
  "mock_missing df =
     (let df1 = df\<lparr>epa_col := scalar_column df INITIAL_EPA\<rparr>;
          df2 = (if defteam_col df1 = None
                 then df1\<lparr>defteam_col := scalar_column df1 ''DEF''\<rparr> else df1);
          df3 = (if posteam_col df2 = None
                 then df2\<lparr>posteam_col := scalar_column df2 ''OFF''\<rparr> else df2);
          df4 = (if game_id_col df3 = None
                 then df3\<lparr>game_id_col := scalar_column df3 ''MOCK''\<rparr> else df3)
      in df4)"

definition calculate_epa :: "frame \<Rightarrow> frame" where
  "calculate_epa df =
     (if frame_empty df then mock_all df
      else if ep_col df = None \<or> ep_before_col df = None then mock_missing df
      else df\<lparr>epa_col := Some (map2 fsub (the (ep_col df)) (the (ep_before_col df)))\<rparr>)"

section \<open>aggregate_net_epa\<close>

datatype error = KeyError string

type_synonym key = "string \<times> string"

text \<open>
  \<open>groupby([k1, k2])\<close> drops every row in which a key is missing, makes one group per
  distinct key pair, and lists the groups in sorted key order.
\<close>

fun keyed :: "string option \<times> string option \<times> 'v \<Rightarrow> (key \<times> 'v) option" where
  "keyed (Some g, Some t, e) = Some ((g, t), e)"
| "keyed _ = None"

definition keyed_rows ::
  "string option list \<Rightarrow> string option list \<Rightarrow> 'v list \<Rightarrow> (key \<times> 'v) list" where
  "keyed_rows gs ts es = List.map_filter keyed (zip gs (zip ts es))"

definition group_keys :: "(key \<times> 'v) list \<Rightarrow> key list" where
  "group_keys rs = sort (remdups (map fst rs))"

definition group_values :: "key \<Rightarrow> (key \<times> 'v) list \<Rightarrow> 'v list" where
  "group_values k rs = map snd (filter (\<lambda>r. fst r = k) rs)"

text \<open>The non-missing cells of a column: \<open>sum\<close> adds them, \<open>count\<close> counts them.\<close>

definition present :: "float list \<Rightarrow> real list" where
  "present vs = List.map_filter id vs"

definition agg_sum :: "float list \<Rightarrow> real" where
  "agg_sum vs = sum_list (present vs)"

definition agg_count :: "float list \<Rightarrow> nat" where
  "agg_count vs = length (present vs)"

text \<open>
  A float column divided by an integer column. The divisor is zero only for a group whose
  cells are all missing; its sum is then \<open>0.0\<close> and the quotient \<open>0.0 / 0\<close> is NaN.
\<close>

definition fdiv :: "real \<Rightarrow> nat \<Rightarrow> float" where
  "fdiv s n = (if n = 0 then None else Some (s / real n))"

record agg_row =
  agg_key :: key
  total_epa :: real
  plays :: nat
  epa_per_play :: float

definition off_epa :: "(key \<times> float) list \<Rightarrow> agg_row list" where
  "off_epa rs =
     map (\<lambda>k. let vs = group_values k rs in
            \<lparr>agg_key = k, total_epa = agg_sum vs, plays = agg_count vs,
             epa_per_play = fdiv (agg_sum vs) (agg_count vs)\<rparr>)
         (group_keys rs)"

definition def_epa :: "(key \<times> float) list \<Rightarrow> agg_row list" where
  "def_epa rs =
     map (\<lambda>k. let vs = group_values k rs in
            \<lparr>agg_key = k, total_epa = agg_sum vs, plays = agg_count vs,
             epa_per_play = fdiv (- agg_sum vs) (agg_count vs)\<rparr>)
         (group_keys rs)"

record net_row =
  game_id :: string
  posteam :: string
  off_epa_per_play :: float
  def_epa_per_play :: float
  net_epa_per_play :: float

definition net_of :: "agg_row \<Rightarrow> float \<Rightarrow> net_row" where
  "net_of l d =
     \<lparr>game_id = fst (agg_key l), posteam = snd (agg_key l),
      off_epa_per_play = epa_per_play l, def_epa_per_play = d,
      net_epa_per_play = fadd (epa_per_play l) d\<rparr>"

text \<open>
  \<open>pd.merge(left, right, how='left')\<close> on equal keys: the left rows in their order, each
  paired with every right row of the same key, or with missing right cells when there is none.
\<close>

definition matches :: "agg_row \<Rightarrow> agg_row list \<Rightarrow> agg_row list" where
  "matches l rights = filter (\<lambda>r. agg_key r = agg_key l) rights"

definition merge_left :: "agg_row list \<Rightarrow> agg_row list \<Rightarrow> net_row list" where
  "merge_left lefts rights =
     concat (map (\<lambda>l. case matches l rights of
                         [] \<Rightarrow> [net_of l None]
                       | rs \<Rightarrow> map (\<lambda>r. net_of l (epa_per_play r)) rs)
                 lefts)"

definition aggregate_net_epa :: "frame \<Rightarrow> error + net_row list" where
  "aggregate_net_epa df =
     (case game_id_col df of
        None \<Rightarrow> Inl (KeyError ''game_id'')
      | Some gs \<Rightarrow>
         (case posteam_col df of
            None \<Rightarrow> Inl (KeyError ''posteam'')
          | Some ps \<Rightarrow>
             (case epa_col df of
                None \<Rightarrow> Inl (KeyError ''epa'')
              | Some es \<Rightarrow>
                 (case defteam_col df of
                    None \<Rightarrow> Inl (KeyError ''defteam'')
                  | Some ds \<Rightarrow>
                      Inr (merge_left (off_epa (keyed_rows gs ps es))
                                      (def_epa (keyed_rows gs ds es)))))))"

section \<open>generate_betting_recommendations\<close>

record rec_row = net_row +
  bet_favorite :: string
  confidence :: float
  bet_type :: string

record rec_frame =
  columns :: "string list"
  rows :: "rec_row list"

definition mock_rows :: "net_row list" where
  "mock_rows =
     [\<lparr>game_id = ''MOCK_1'', posteam = ''TeamA'', off_epa_per_play = Some 0.05,
       def_epa_per_play = Some 0.03, net_epa_per_play = Some 0.08\<rparr>,
      \<lparr>game_id = ''MOCK_1'', posteam = ''TeamB'', off_epa_per_play = Some (- 0.02),
       def_epa_per_play = Some (- 0.01), net_epa_per_play = Some (- 0.03)\<rparr>]"

definition recommend :: "net_row \<Rightarrow> rec_row" where
  "recommend r =
     (let favorite = (if fgt (net_epa_per_play r) 0 then ''Bet'' else ''Avoid'');
          conf = fabs (net_epa_per_play r);
          type = (if fgt conf 0.05 then ''Spread'' else ''No Bet'')
      in \<lparr>game_id = game_id r, posteam = posteam r,
          off_epa_per_play = off_epa_per_play r, def_epa_per_play = def_epa_per_play r,
          net_epa_per_play = net_epa_per_play r,
          bet_favorite = favorite, confidence = conf, bet_type = type\<rparr>)"

definition output_columns :: "string list" where
  "output_columns =
     [''game_id'', ''posteam'', ''off_epa_per_play'', ''def_epa_per_play'',
      ''net_epa_per_play'', ''bet_favorite'', ''confidence'', ''bet_type'']"

definition generate_betting_recommendations :: "net_row list \<Rightarrow> rec_frame" where
  "generate_betting_recommendations net_epa =
     (let df = net_epa;
          df = (if df = [] then mock_rows else df)
      in \<lparr>columns = output_columns, rows = map recommend df\<rparr>)"

text \<open>
  The same function with the tables held in a store, so that what it writes is visible.
  A table object carries the five aggregate columns and, once they have been assigned, the
  three recommendation columns. \<open>net_epa.copy()\<close> and the column selection of the
  \<open>return\<close> each create a new object, the literal mock table is a new object too, and the
  three column assignments write into the object \<open>df\<close> refers to.
\<close>

datatype table = Net "net_row list" | Annotated "rec_row list"

definition net_part :: "rec_row \<Rightarrow> net_row" where
  "net_part r =
     \<lparr>game_id = game_id r, posteam = posteam r, off_epa_per_play = off_epa_per_play r,
      def_epa_per_play = def_epa_per_play r, net_epa_per_play = net_epa_per_play r\<rparr>"

fun base :: "table \<Rightarrow> net_row list" where
  "base (Net rs) = rs"
| "base (Annotated rs) = map net_part rs"

definition annotate :: "table \<Rightarrow> table" where
  "annotate t = Annotated (map recommend (base t))"

type_synonym ref = nat

type_synonym store = "table list"

definition lookup :: "store \<Rightarrow> ref \<Rightarrow> table option" where
  "lookup h p = (if p < length h then Some (h ! p) else None)"

definition alloc :: "table \<Rightarrow> store \<Rightarrow> ref \<times> store" where
  "alloc t h = (length h, h @ [t])"

definition generate_betting_recommendations_st :: "ref \<Rightarrow> store \<Rightarrow> (ref \<times> store) option" where
  "generate_betting_recommendations_st net_epa h =
     (case lookup h net_epa of
        None \<Rightarrow> None
      | Some t \<Rightarrow>
         (let (df, h1) = alloc t h;
              (df, h2) = (if base (h1 ! df) = [] then alloc (Net mock_rows) h1 else (df, h1));
              h3 = h2[df := annotate (h2 ! df)];
              (out, h4) = alloc (h3 ! df) h3
          in Some (out, h4)))"

section \<open>fetch_pbp_data\<close>

text \<open>
  The upstream library is outside the program. A request either raises an exception of class
  \<open>Exception\<close> or returns a table, and two requests for one season need not answer alike:
  \<open>upstream n season\<close> is the answer to the request for \<open>season\<close> made after \<open>n\<close> earlier
  requests. The state threaded through is the list of the seasons requested so far. Console
  output is not modelled.
\<close>

datatype exn = Exception string

type_synonym upstream = "nat \<Rightarrow> int \<Rightarrow> exn + frame"

definition import_pbp_data :: "upstream \<Rightarrow> int \<Rightarrow> int list \<Rightarrow> (exn + frame) \<times> int list" where
  "import_pbp_data up season reqs = (up (length reqs) season, reqs @ [season])"

definition try_fetch :: "upstream \<Rightarrow> int \<Rightarrow> int list \<Rightarrow> (exn + frame) \<times> int list" where
  "try_fetch up season reqs =
     (let (r, reqs1) = import_pbp_data up season reqs in
      case r of
        Inl e \<Rightarrow> (Inl e, reqs1)
      | Inr pbp_data \<Rightarrow>
          if frame_empty pbp_data
          then (Inl (Exception ''Data not available for this season''), reqs1)
          else (Inr pbp_data, reqs1))"

definition fetch_pbp_data :: "upstream \<Rightarrow> int \<Rightarrow> int list \<Rightarrow> (exn + frame) \<times> int list" where
  "fetch_pbp_data up season reqs =
     (case try_fetch up season reqs of
        (Inr pbp_data, reqs1) \<Rightarrow> (Inr pbp_data, reqs1)
      | (Inl e, reqs1) \<Rightarrow> import_pbp_data up LATEST_AVAILABLE_SEASON reqs1)"

section \<open>Float64 arithmetic as a parameter\<close>

text \<open>
  The definitions above compute on exact reals. Float64 arithmetic rounds its results and
  overflows to an infinity, so what a property says about the result of an operation is
  stated on a second translation of the two functions that do arithmetic, in which the cells
  are of an arbitrary type \<open>'f\<close> and the operations on them are parameters: the NaN a merge
  fills in, the test for a missing cell, the float64 value of a decimal literal, the float64
  subtraction, addition and negation, the sum pandas computes over the cells of a group, and the
  division of a float64 by an integer count. Nothing is assumed of them.
\<close>

record 'f arith =
  f_nan :: 'f
  f_isnan :: "'f \<Rightarrow> bool"
  f_lit :: "real \<Rightarrow> 'f"
  f_sub :: "'f \<Rightarrow> 'f \<Rightarrow> 'f"
  f_add :: "'f \<Rightarrow> 'f \<Rightarrow> 'f"
  f_neg :: "'f \<Rightarrow> 'f"
  f_sum :: "'f list \<Rightarrow> 'f"
  f_div :: "'f \<Rightarrow> nat \<Rightarrow> 'f"

definition mock_all_f64 :: "'f arith \<Rightarrow> 'f gframe \<Rightarrow> 'f gframe" where
  "mock_all_f64 ar df =
     df\<lparr>epa_col := Some (replicate (nrows df) (f_lit ar INITIAL_EPA)),
        defteam_col := scalar_column df ''DEF'',
        posteam_col := scalar_column df ''OFF'',
        game_id_col := scalar_column df ''MOCK''\<rparr>"

definition mock_missing_f64 :: "'f arith \<Rightarrow> 'f gframe \<Rightarrow> 'f gframe" where
  "mock_missing_f64 ar df =
     (let df1 = df\<lparr>epa_col := Some (replicate (nrows df) (f_lit ar INITIAL_EPA))\<rparr>;
          df2 = (if defteam_col df1 = None
                 then df1\<lparr>defteam_col := scalar_column df1 ''DEF''\<rparr> else df1);
          df3 = (if posteam_col df2 = None
                 then df2\<lparr>posteam_col := scalar_column df2 ''OFF''\<rparr> else df2);
          df4 = (if game_id_col df3 = None
                 then df3\<lparr>game_id_col := scalar_column df3 ''MOCK''\<rparr> else df3)
      in df4)"

definition calculate_epa_f64 :: "'f arith \<Rightarrow> 'f gframe \<Rightarrow> 'f gframe" where
  "calculate_epa_f64 ar df =
     (if frame_empty df then mock_all_f64 ar df
      else if ep_col df = None \<or> ep_before_col df = None then mock_missing_f64 ar df
      else df\<lparr>epa_col := Some (map2 (f_sub ar) (the (ep_col df)) (the (ep_before_col df)))\<rparr>)"

text \<open>
  The grouped \<open>sum\<close> adds the cells of the group that are not missing and \<open>count\<close> counts
  them.
\<close>

definition present_f64 :: "'f arith \<Rightarrow> 'f list \<Rightarrow> 'f list" where
  "present_f64 ar vs = filter (\<lambda>v. \<not> f_isnan ar v) vs"

record 'f agg_f64 =
  g_key :: key
  g_total :: 'f
  g_plays :: nat
  g_per_play :: 'f

definition off_epa_f64 :: "'f arith \<Rightarrow> (key \<times> 'f) list \<Rightarrow> 'f agg_f64 list" where
  "off_epa_f64 ar rs =
     map (\<lambda>k. let vs = present_f64 ar (group_values k rs);
                total = f_sum ar vs; n = length vs in
            \<lparr>g_key = k, g_total = total, g_plays = n, g_per_play = f_div ar total n\<rparr>)
         (group_keys rs)"

definition def_epa_f64 :: "'f arith \<Rightarrow> (key \<times> 'f) list \<Rightarrow> 'f agg_f64 list" where
  "def_epa_f64 ar rs =
     map (\<lambda>k. let vs = present_f64 ar (group_values k rs);
                total = f_sum ar vs; n = length vs in
            \<lparr>g_key = k, g_total = total, g_plays = n,
             g_per_play = f_div ar (f_neg ar total) n\<rparr>)
         (group_keys rs)"

record 'f net_f64 =
  game :: string
  team :: string
  off_per_play :: 'f
  def_per_play :: 'f
  net_per_play :: 'f

definition net_of_f64 :: "'f arith \<Rightarrow> 'f agg_f64 \<Rightarrow> 'f \<Rightarrow> 'f net_f64" where
  "net_of_f64 ar l d =
     \<lparr>game = fst (g_key l), team = snd (g_key l),
      off_per_play = g_per_play l, def_per_play = d,
      net_per_play = f_add ar (g_per_play l) d\<rparr>"

definition matches_f64 :: "'f agg_f64 \<Rightarrow> 'f agg_f64 list \<Rightarrow> 'f agg_f64 list" where
  "matches_f64 l rights = filter (\<lambda>r. g_key r = g_key l) rights"

definition merge_left_f64 ::
  "'f arith \<Rightarrow> 'f agg_f64 list \<Rightarrow> 'f agg_f64 list \<Rightarrow> 'f net_f64 list" where
  "merge_left_f64 ar lefts rights =
     concat (map (\<lambda>l. case matches_f64 l rights of
                         [] \<Rightarrow> [net_of_f64 ar l (f_nan ar)]
                       | rs \<Rightarrow> map (\<lambda>r. net_of_f64 ar l (g_per_play r)) rs)
                 lefts)"

definition aggregate_net_epa_f64 :: "'f arith \<Rightarrow> 'f gframe \<Rightarrow> error + 'f net_f64 list" where
  "aggregate_net_epa_f64 ar df =
     (case game_id_col df of
        None \<Rightarrow> Inl (KeyError ''game_id'')
      | Some gs \<Rightarrow>
         (case posteam_col df of
            None \<Rightarrow> Inl (KeyError ''posteam'')
          | Some ps \<Rightarrow>
             (case epa_col df of
                None \<Rightarrow> Inl (KeyError ''epa'')
              | Some es \<Rightarrow>
                 (case defteam_col df of
                    None \<Rightarrow> Inl (KeyError ''defteam'')
                  | Some ds \<Rightarrow>
                      Inr (merge_left_f64 ar (off_epa_f64 ar (keyed_rows gs ps es))
                                             (def_epa_f64 ar (keyed_rows gs ds es)))))))"

text \<open>
  The arithmetic of the first translation as an instance: exact reals, with \<open>None\<close> for
  NaN. Its results are those of float64 wherever float64 neither rounds nor yields an
  infinity, as in the examples of this file.
\<close>

definition exact_arith :: "float arith" where
  "exact_arith =
     \<lparr>f_nan = None, f_isnan = (\<lambda>v. v = None), f_lit = Some,
      f_sub = fsub, f_add = fadd, f_neg = fneg,
      f_sum = (\<lambda>vs. Some (agg_sum vs)),
      f_div = (\<lambda>s n. case s of None \<Rightarrow> None | Some x \<Rightarrow> fdiv x n)\<rparr>"

text \<open>Rows of the second translation read as rows of the first.\<close>

definition to_net_row :: "float net_f64 \<Rightarrow> net_row" where
  "to_net_row r =
     \<lparr>game_id = game r, posteam = team r, off_epa_per_play = off_per_play r,
      def_epa_per_play = def_per_play r, net_epa_per_play = net_per_play r\<rparr>"

definition to_agg_row :: "float agg_f64 \<Rightarrow> agg_row" where
  "to_agg_row a =
     \<lparr>agg_key = g_key a, total_epa = (case g_total a of None \<Rightarrow> 0 | Some x \<Rightarrow> x),
      plays = g_plays a, epa_per_play = g_per_play a\<rparr>"

section \<open>Notions of the specification\<close>

text \<open>
  The efficiency values of the plays of one game in which one team has one role: the cells of
  the efficiency column in the rows whose game identifier and team column equal the key.
\<close>

definition plays_of ::
  "string option list \<Rightarrow> string option list \<Rightarrow> 'v list \<Rightarrow> key \<Rightarrow> 'v list" where
  "plays_of gs ts es k =
     map (\<lambda>r. snd (snd r))
       (filter (\<lambda>r. fst r = Some (fst k) \<and> fst (snd r) = Some (snd k)) (zip gs (zip ts es)))"

definition mean :: "real list \<Rightarrow> real" where
  "mean xs = sum_list xs / real (length xs)"

text \<open>The mean of the values that are not missing; missing when there is none.\<close>

definition mean_present :: "float list \<Rightarrow> float" where
  "mean_present vs = (if present vs = [] then None else Some (mean (present vs)))"

text \<open>
  Over float64 cells: the mean of the cells that are not missing, as the sum over the count;
  the same with the sum negated; and the sum over the number of rows, as the specification
  words the per-play value.
\<close>

definition mean_f64 :: "'f arith \<Rightarrow> 'f list \<Rightarrow> 'f" where
  "mean_f64 ar vs = f_div ar (f_sum ar (present_f64 ar vs)) (length (present_f64 ar vs))"

definition neg_mean_f64 :: "'f arith \<Rightarrow> 'f list \<Rightarrow> 'f" where
  "neg_mean_f64 ar vs =
     f_div ar (f_neg ar (f_sum ar (present_f64 ar vs))) (length (present_f64 ar vs))"

definition sum_over_rows_f64 :: "'f arith \<Rightarrow> 'f list \<Rightarrow> 'f" where
  "sum_over_rows_f64 ar vs = f_div ar (f_sum ar (present_f64 ar vs)) (length vs)"

definition key_of :: "net_row \<Rightarrow> key" where
  "key_of r = (game_id r, posteam r)"

section \<open>Example inputs\<close>

definition no_plays :: frame where
  "no_plays =
     \<lparr>nrows = 0, game_id_col = None, posteam_col = None, defteam_col = None,
      ep_col = None, ep_before_col = None, epa_col = None, other_columns = []\<rparr>"

definition index_only :: frame where
  "index_only =
     \<lparr>nrows = 2, game_id_col = None, posteam_col = None, defteam_col = None,
      ep_col = None, ep_before_col = None, epa_col = None, other_columns = []\<rparr>"

definition two_plays :: frame where
  "two_plays =
     \<lparr>nrows = 2, game_id_col = Some [Some ''G1'', Some ''G1''],
      posteam_col = Some [Some ''A'', Some ''A''],
      defteam_col = Some [Some ''B'', Some ''B''],
      ep_col = Some [Some 1.5, None], ep_before_col = Some [Some 2, Some 0.25],
      epa_col = None, other_columns = [''down'']\<rparr>"

definition no_ep_before :: frame where
  "no_ep_before =
     \<lparr>nrows = 2, game_id_col = Some [Some ''G1'', Some ''G1''],
      posteam_col = None, defteam_col = Some [Some ''B'', None],
      ep_col = Some [Some 1.5, Some 1], ep_before_col = None,
      epa_col = Some [Some 7, Some 8], other_columns = []\<rparr>"

definition no_rows :: frame where
  "no_rows =
     \<lparr>nrows = 0, game_id_col = None, posteam_col = None, defteam_col = None,
      ep_col = Some [], ep_before_col = Some [], epa_col = None, other_columns = []\<rparr>"

text \<open>Game G1: team A on offense against team B in two plays of efficiency 0.1 and 0.3.\<close>

definition g1_plays :: frame where
  "g1_plays =
     \<lparr>nrows = 2, game_id_col = Some [Some ''G1'', Some ''G1''],
      posteam_col = Some [Some ''A'', Some ''A''],
      defteam_col = Some [Some ''B'', Some ''B''],
      ep_col = None, ep_before_col = None, epa_col = Some [Some 0.1, Some 0.3],
      other_columns = []\<rparr>"

definition g1_row :: net_row where
  "g1_row =
     \<lparr>game_id = ''G1'', posteam = ''A'', off_epa_per_play = Some 0.2,
      def_epa_per_play = None, net_epa_per_play = None\<rparr>"

text \<open>Team A's row of that scenario as the specification expects it.\<close>

definition g1_row_expected :: rec_row where
  "g1_row_expected =
     \<lparr>game_id = ''G1'', posteam = ''A'', off_epa_per_play = Some 0.2,
      def_epa_per_play = Some 0.0, net_epa_per_play = Some 0.2,
      bet_favorite = ''Bet'', confidence = Some 0.2, bet_type = ''Spread''\<rparr>"

text \<open>
  Game G1 with both teams in both roles: B has one play on offense, A has two, the second of
  them without an efficiency value; a fourth row has no game identifier.
\<close>

definition mixed_plays :: frame where
  "mixed_plays =
     \<lparr>nrows = 4,
      game_id_col = Some [Some ''G1'', Some ''G1'', Some ''G1'', None],
      posteam_col = Some [Some ''B'', Some ''A'', Some ''A'', Some ''A''],
      defteam_col = Some [Some ''A'', Some ''B'', Some ''B'', Some ''B''],
      ep_col = None, ep_before_col = None,
      epa_col = Some [Some 2, Some 1, None, Some 5],
      other_columns = []\<rparr>"

text \<open>The aggregate of \<open>mixed_plays\<close>.\<close>

definition mixed_net :: "net_row list" where
  "mixed_net =
     [\<lparr>game_id = ''G1'', posteam = ''A'', off_epa_per_play = Some 1,
       def_epa_per_play = Some (- 2), net_epa_per_play = Some (- 1)\<rparr>,
      \<lparr>game_id = ''G1'', posteam = ''B'', off_epa_per_play = Some 2,
       def_epa_per_play = Some (- 1), net_epa_per_play = Some 1\<rparr>]"

text \<open>The same aggregate over the exact arithmetic as an instance.\<close>

definition mixed_net_f64 :: "float net_f64 list" where
  "mixed_net_f64 =
     [\<lparr>game = ''G1'', team = ''A'', off_per_play = Some 1,
       def_per_play = Some (- 2), net_per_play = Some (- 1)\<rparr>,
      \<lparr>game = ''G1'', team = ''B'', off_per_play = Some 2,
       def_per_play = Some (- 1), net_per_play = Some 1\<rparr>]"

text \<open>Net values on and around the two thresholds.\<close>

definition boundary_rows :: "net_row list" where
  "boundary_rows =
     [\<lparr>game_id = ''G2'', posteam = ''C'', off_epa_per_play = Some 0.1,
       def_epa_per_play = Some (- 0.1), net_epa_per_play = Some 0\<rparr>,
      \<lparr>game_id = ''G2'', posteam = ''D'', off_epa_per_play = Some 0.02,
       def_epa_per_play = Some (- 0.07), net_epa_per_play = Some (- 0.05)\<rparr>,
      \<lparr>game_id = ''G3'', posteam = ''C'', off_epa_per_play = Some 0.3,
       def_epa_per_play = Some (- 0.1), net_epa_per_play = Some 0.2\<rparr>]"

definition upstream_down :: upstream where
  "upstream_down n season = Inl (Exception ''connection refused'')"

definition upstream_2024_only :: upstream where
  "upstream_2024_only n season =
     (if season = 2024 then Inr g1_plays else Inl (Exception ''no such season''))"

definition upstream_empty :: upstream where
  "upstream_empty n season = Inr no_plays"

section \<open>Properties of calculate_epa\<close>

text \<open>
  Claim C2, as the code has it. On an empty table every scalar assignment fills the rows the
  index has and creates none: the result has as many rows as the input, with efficiency 0.0,
  offensive team "OFF", defensive team "DEF" and game identifier "MOCK" in each of them, the
  four columns being created or overwritten. A table without rows stays without rows.
\<close>

theorem calculate_epa_empty:
  assumes "frame_empty df"
  shows "calculate_epa df =
           df\<lparr>epa_col := Some (replicate (nrows df) (Some 0)),
              defteam_col := Some (replicate (nrows df) (Some ''DEF'')),
              posteam_col := Some (replicate (nrows df) (Some ''OFF'')),
              game_id_col := Some (replicate (nrows df) (Some ''MOCK''))\<rparr> \<and>
         nrows (calculate_epa df) = nrows df"
  using assms by (simp add: calculate_epa_def mock_all_def scalar_column_def INITIAL_EPA_def)

text \<open>A table with two index entries and no column is empty; both entries are filled.\<close>

theorem calculate_epa_empty_witness:
  "frame_empty index_only \<and>
   calculate_epa index_only =
     \<lparr>nrows = 2, game_id_col = Some [Some ''MOCK'', Some ''MOCK''],
      posteam_col = Some [Some ''OFF'', Some ''OFF''],
      defteam_col = Some [Some ''DEF'', Some ''DEF''],
      ep_col = None, ep_before_col = None, epa_col = Some [Some 0, Some 0],
      other_columns = []\<rparr>"
proof -
  have e: "frame_empty index_only"
    by (simp add: index_only_def frame_empty_def no_columns_def)
  from calculate_epa_empty [OF e] show ?thesis
    using e by (simp add: index_only_def numeral_2_eq_2)
qed

text \<open>
  Claim C2 as stated fails: the table without rows and columns is empty, and the result has
  no row at all, only the four new columns, each without a cell.
\<close>

theorem calculate_epa_empty_no_row:
  "frame_empty no_plays \<and> nrows (calculate_epa no_plays) = 0 \<and>
   nrows (calculate_epa no_plays) \<noteq> 1 \<and>
   epa_col (calculate_epa no_plays) = Some [] \<and>
   epa_col (calculate_epa no_plays) \<noteq> Some [Some 0] \<and>
   posteam_col (calculate_epa no_plays) = Some [] \<and>
   defteam_col (calculate_epa no_plays) = Some [] \<and>
   game_id_col (calculate_epa no_plays) = Some []"
  by (simp add: no_plays_def frame_empty_def no_columns_def calculate_epa_def mock_all_def
      scalar_column_def)

text \<open>
  Claim C3. For a table that is not empty and has both point-value columns, the result is
  the input with the efficiency column set, one cell per row, and in every row the efficiency
  is the float64 difference of the post-play value and the pre-play value of that row, with
  nothing else applied to it. The subtraction is the one of the machine, whatever it gives.
\<close>

theorem calculate_epa_difference:
  assumes "wf_frame df" and "\<not> frame_empty df"
    and "ep_col df = Some post" and "ep_before_col df = Some pre"
  shows "calculate_epa_f64 ar df = df\<lparr>epa_col := Some (map2 (f_sub ar) post pre)\<rparr> \<and>
         length (map2 (f_sub ar) post pre) = nrows df \<and>
         (\<forall>i<nrows df. map2 (f_sub ar) post pre ! i = f_sub ar (post ! i) (pre ! i))"
proof -
  from assms have len: "length post = nrows df" "length pre = nrows df"
    by (simp_all add: wf_frame_def col_ok_def)
  have "calculate_epa_f64 ar df = df\<lparr>epa_col := Some (map2 (f_sub ar) post pre)\<rparr>"
    using assms by (simp add: calculate_epa_f64_def)
  moreover have "length (map2 (f_sub ar) post pre) = nrows df"
    using len by simp
  moreover have "\<forall>i<nrows df. map2 (f_sub ar) post pre ! i = f_sub ar (post ! i) (pre ! i)"
    using len by simp
  ultimately show ?thesis by blast
qed

theorem calculate_epa_difference_witness:
  "wf_frame two_plays \<and> \<not> frame_empty two_plays \<and>
   ep_col two_plays = Some [Some 1.5, None] \<and>
   ep_before_col two_plays = Some [Some 2, Some 0.25] \<and>
   calculate_epa_f64 exact_arith two_plays =
     two_plays\<lparr>epa_col := Some [f_sub exact_arith (Some 1.5) (Some 2),
                                  f_sub exact_arith None (Some 0.25)]\<rparr> \<and>
   f_sub exact_arith (Some 1.5) (Some 2) = Some (- 0.5) \<and>
   f_sub exact_arith None (Some 0.25) = None"
proof -
  have w: "wf_frame two_plays"
    by (simp add: two_plays_def wf_frame_def col_ok_def)
  have n: "\<not> frame_empty two_plays"
    by (simp add: two_plays_def frame_empty_def no_columns_def)
  have a: "ep_col two_plays = Some [Some 1.5, None]"
    and b: "ep_before_col two_plays = Some [Some 2, Some 0.25]"
    by (simp_all add: two_plays_def)
  have s: "f_sub exact_arith (Some 1.5) (Some 2) = Some (- 0.5)"
    "f_sub exact_arith None (Some 0.25) = None"
    by (simp_all add: exact_arith_def)
  from calculate_epa_difference [OF w n a b, of exact_arith]
  have "calculate_epa_f64 exact_arith two_plays =
     two_plays\<lparr>epa_col := Some [f_sub exact_arith (Some 1.5) (Some 2),
                                  f_sub exact_arith None (Some 0.25)]\<rparr>"
    by simp
  with w n a b s show ?thesis by blast
qed

text \<open>
  Claim C4. For a table that is not empty and lacks a point-value column, every row gets the
  efficiency 0.0, and each of the three key columns is created with its sentinel exactly when
  it is absent and kept as it is otherwise, each on its own. The empty check comes first: an
  empty table gets all four columns overwritten, whatever its schema.
\<close>

theorem calculate_epa_missing_fields:
  "(\<not> frame_empty df \<and> (ep_col df = None \<or> ep_before_col df = None) \<longrightarrow>
      calculate_epa df =
        df\<lparr>epa_col := Some (replicate (nrows df) (Some 0)),
           defteam_col := (case defteam_col df of
                             None \<Rightarrow> Some (replicate (nrows df) (Some ''DEF''))
                           | Some c \<Rightarrow> Some c),
           posteam_col := (case posteam_col df of
                             None \<Rightarrow> Some (replicate (nrows df) (Some ''OFF''))
                           | Some c \<Rightarrow> Some c),
           game_id_col := (case game_id_col df of
                             None \<Rightarrow> Some (replicate (nrows df) (Some ''MOCK''))
                           | Some c \<Rightarrow> Some c)\<rparr>) \<and>
   (frame_empty df \<longrightarrow>
      calculate_epa df =
        df\<lparr>epa_col := Some (replicate (nrows df) (Some 0)),
           defteam_col := Some (replicate (nrows df) (Some ''DEF'')),
           posteam_col := Some (replicate (nrows df) (Some ''OFF'')),
           game_id_col := Some (replicate (nrows df) (Some ''MOCK''))\<rparr>)"
  by (cases "defteam_col df"; cases "posteam_col df"; cases "game_id_col df")
     (simp_all add: calculate_epa_def mock_all_def mock_missing_def scalar_column_def
        INITIAL_EPA_def Let_def)

theorem calculate_epa_missing_fields_witness:
  "\<not> frame_empty no_ep_before \<and> ep_before_col no_ep_before = None \<and>
   calculate_epa no_ep_before =
     \<lparr>nrows = 2, game_id_col = Some [Some ''G1'', Some ''G1''],
      posteam_col = Some [Some ''OFF'', Some ''OFF''], defteam_col = Some [Some ''B'', None],
      ep_col = Some [Some 1.5, Some 1], ep_before_col = None, epa_col = Some [Some 0, Some 0],
      other_columns = []\<rparr> \<and>
   frame_empty no_rows \<and>
   calculate_epa no_rows =
     \<lparr>nrows = 0, game_id_col = Some [], posteam_col = Some [], defteam_col = Some [],
      ep_col = Some [], ep_before_col = Some [], epa_col = Some [], other_columns = []\<rparr>"
proof -
  have n: "\<not> frame_empty no_ep_before" "ep_before_col no_ep_before = None"
    by (simp_all add: no_ep_before_def frame_empty_def no_columns_def)
  have e: "frame_empty no_rows"
    by (simp add: no_rows_def frame_empty_def)
  from calculate_epa_missing_fields [of no_ep_before] n
  have 1: "calculate_epa no_ep_before =
     \<lparr>nrows = 2, game_id_col = Some [Some ''G1'', Some ''G1''],
      posteam_col = Some [Some ''OFF'', Some ''OFF''], defteam_col = Some [Some ''B'', None],
      ep_col = Some [Some 1.5, Some 1], ep_before_col = None, epa_col = Some [Some 0, Some 0],
      other_columns = []\<rparr>"
    by (simp add: no_ep_before_def numeral_2_eq_2)
  from calculate_epa_missing_fields [of no_rows] e
  have 2: "calculate_epa no_rows =
     \<lparr>nrows = 0, game_id_col = Some [], posteam_col = Some [], defteam_col = Some [],
      ep_col = Some [], ep_before_col = Some [], epa_col = Some [], other_columns = []\<rparr>"
    by (simp add: no_rows_def)
  from n e 1 2 show ?thesis by blast
qed

section \<open>Grouping and merging\<close>

lemma distinct_group_keys: "distinct (group_keys rs)"
  by (simp add: group_keys_def)

lemma set_group_keys: "set (group_keys rs) = fst ` set rs"
  by (simp add: group_keys_def)

lemma off_epa_keys: "map agg_key (off_epa rs) = group_keys rs"
  by (simp add: off_epa_def Let_def o_def)

lemma def_epa_keys: "map agg_key (def_epa rs) = group_keys rs"
  by (simp add: def_epa_def Let_def o_def)

lemma at_most_one: "distinct (map f xs) \<Longrightarrow> length (filter (\<lambda>x. f x = k) xs) \<le> 1"
proof (induction xs)
  case Nil
  then show ?case by simp
next
  case (Cons x xs)
  show ?case
  proof (cases "f x = k")
    case True
    with Cons.prems have "\<forall>y\<in>set xs. f y \<noteq> k" by (auto simp: image_iff)
    then have "filter (\<lambda>x. f x = k) xs = []" by (simp add: filter_empty_conv)
    with True show ?thesis by simp
  next
    case False
    with Cons show ?thesis by simp
  qed
qed

lemma matches_cases:
  assumes "distinct (map agg_key rights)"
  obtains "matches l rights = []" | d where "matches l rights = [d]"
proof -
  have "length (matches l rights) \<le> 1"
    unfolding matches_def using at_most_one [OF assms, of "agg_key l"] .
  then show ?thesis
    using that by (cases "matches l rights") (auto simp: length_Suc_conv)
qed

lemma key_of_net_of: "key_of (net_of l d) = agg_key l"
  by (simp add: key_of_def net_of_def)

lemma merge_left_keys:
  assumes "distinct (map agg_key rights)"
  shows "map key_of (merge_left lefts rights) = map agg_key lefts"
proof (induction lefts)
  case Nil
  then show ?case by (simp add: merge_left_def)
next
  case (Cons l lefts)
  have rest: "merge_left (l # lefts) rights =
      (case matches l rights of [] \<Rightarrow> [net_of l None]
        | rs \<Rightarrow> map (\<lambda>r. net_of l (epa_per_play r)) rs) @ merge_left lefts rights"
    by (simp add: merge_left_def)
  from assms show ?case
  proof (rule matches_cases [of rights l])
    assume "matches l rights = []"
    with Cons.IH show ?thesis by (simp add: rest key_of_net_of)
  next
    fix d assume "matches l rights = [d]"
    with Cons.IH show ?thesis by (simp add: rest key_of_net_of)
  qed
qed

lemma merge_left_row:
  assumes "r \<in> set (merge_left lefts rights)"
  shows "\<exists>l\<in>set lefts. (matches l rights = [] \<and> r = net_of l None) \<or>
           (\<exists>d\<in>set (matches l rights). r = net_of l (epa_per_play d))"
proof -
  from assms obtain l where l: "l \<in> set lefts"
    and r: "r \<in> set (case matches l rights of [] \<Rightarrow> [net_of l None]
                | rs \<Rightarrow> map (\<lambda>r. net_of l (epa_per_play r)) rs)"
    by (auto simp: merge_left_def)
  show ?thesis
  proof (cases "matches l rights")
    case Nil
    with l r show ?thesis by auto
  next
    case (Cons d ds)
    with r have "r \<in> (\<lambda>r. net_of l (epa_per_play r)) ` set (matches l rights)" by simp
    with l show ?thesis by blast
  qed
qed

lemma zip3_fst: "(a, b, c) \<in> set (zip xs (zip ys zs)) \<Longrightarrow> (a, b) \<in> set (zip xs ys)"
  by (fastforce simp: in_set_zip)

lemma group_values_keyed: "group_values k (keyed_rows gs ts es) = plays_of gs ts es k"
proof -
  have "map snd (filter (\<lambda>r. fst r = k) (List.map_filter keyed xs)) =
        map (\<lambda>r. snd (snd r)) (filter (\<lambda>r. fst r = Some (fst k) \<and> fst (snd r) = Some (snd k)) xs)"
    for xs
  proof (induction xs)
    case Nil
    then show ?case by (simp add: List.map_filter_simps)
  next
    case (Cons x xs)
    obtain g t e where x: "x = (g, t, e)" by (cases x) auto
    show ?case
      using Cons.IH by (cases g; cases t; cases k) (auto simp: x List.map_filter_simps)
  qed
  then show ?thesis by (simp add: group_values_def keyed_rows_def plays_of_def)
qed

lemma group_values_empty_iff: "group_values k rs = [] \<longleftrightarrow> k \<notin> fst ` set rs"
  by (auto simp: group_values_def filter_empty_conv)

lemma fdiv_mean: "fdiv (agg_sum vs) (agg_count vs) = mean_present vs"
  by (simp add: fdiv_def agg_sum_def agg_count_def mean_present_def mean_def)

lemma fdiv_neg_mean: "fdiv (- agg_sum vs) (agg_count vs) = fneg (mean_present vs)"
  by (simp add: fdiv_def agg_sum_def agg_count_def mean_present_def mean_def)

lemma off_epa_row:
  assumes "a \<in> set (off_epa rs)"
  shows "agg_key a \<in> fst ` set rs" and "epa_per_play a = mean_present (group_values (agg_key a) rs)"
proof -
  from assms obtain k where k: "k \<in> set (group_keys rs)"
    and a: "a = \<lparr>agg_key = k, total_epa = agg_sum (group_values k rs),
                 plays = agg_count (group_values k rs),
                 epa_per_play = fdiv (agg_sum (group_values k rs)) (agg_count (group_values k rs))\<rparr>"
    by (auto simp: off_epa_def Let_def)
  from k a show "agg_key a \<in> fst ` set rs" by (simp add: set_group_keys)
  from a show "epa_per_play a = mean_present (group_values (agg_key a) rs)"
    by (simp add: fdiv_mean)
qed

lemma def_epa_row:
  assumes "a \<in> set (def_epa rs)"
  shows "agg_key a \<in> fst ` set rs"
    and "epa_per_play a = fneg (mean_present (group_values (agg_key a) rs))"
proof -
  from assms obtain k where k: "k \<in> set (group_keys rs)"
    and a: "a = \<lparr>agg_key = k, total_epa = agg_sum (group_values k rs),
                 plays = agg_count (group_values k rs),
                 epa_per_play = fdiv (- agg_sum (group_values k rs)) (agg_count (group_values k rs))\<rparr>"
    by (auto simp: def_epa_def Let_def)
  from k a show "agg_key a \<in> fst ` set rs" by (simp add: set_group_keys)
  from a show "epa_per_play a = fneg (mean_present (group_values (agg_key a) rs))"
    by (simp add: fdiv_neg_mean)
qed

lemma matches_empty_iff: "matches l (def_epa rs) = [] \<longleftrightarrow> group_values (agg_key l) rs = []"
proof -
  have "matches l (def_epa rs) = [] \<longleftrightarrow> agg_key l \<notin> set (map agg_key (def_epa rs))"
    unfolding matches_def filter_empty_conv set_map image_iff by metis
  then show ?thesis
    by (simp add: def_epa_keys set_group_keys group_values_empty_iff)
qed

lemma aggregate_columns:
  assumes "aggregate_net_epa df = Inr out"
  obtains gs ps ds es where "game_id_col df = Some gs" and "posteam_col df = Some ps"
    and "defteam_col df = Some ds" and "epa_col df = Some es"
    and "out = merge_left (off_epa (keyed_rows gs ps es)) (def_epa (keyed_rows gs ds es))"
  using assms by (auto simp: aggregate_net_epa_def split: option.splits)

lemma merged_row:
  assumes "r \<in> set (merge_left (off_epa rs) (def_epa ss))"
  shows "group_values (key_of r) rs \<noteq> []"
    and "off_epa_per_play r = mean_present (group_values (key_of r) rs)"
    and "def_epa_per_play r =
           (if group_values (key_of r) ss = [] then None
            else fneg (mean_present (group_values (key_of r) ss)))"
    and "net_epa_per_play r = fadd (off_epa_per_play r) (def_epa_per_play r)"
proof -
  from merge_left_row [OF assms] obtain l where l: "l \<in> set (off_epa rs)"
    and r: "(matches l (def_epa ss) = [] \<and> r = net_of l None) \<or>
           (\<exists>d\<in>set (matches l (def_epa ss)). r = net_of l (epa_per_play d))"
    by blast
  from r have k: "key_of r = agg_key l" by (auto simp: key_of_net_of)
  from r have o: "off_epa_per_play r = epa_per_play l" by (auto simp: net_of_def)
  from off_epa_row [OF l] k show "group_values (key_of r) rs \<noteq> []"
    by (simp add: group_values_empty_iff)
  from off_epa_row [OF l] k o
  show "off_epa_per_play r = mean_present (group_values (key_of r) rs)" by simp
  from r show "net_epa_per_play r = fadd (off_epa_per_play r) (def_epa_per_play r)"
    by (auto simp: net_of_def)
  from r show "def_epa_per_play r =
           (if group_values (key_of r) ss = [] then None
            else fneg (mean_present (group_values (key_of r) ss)))"
  proof
    assume "matches l (def_epa ss) = [] \<and> r = net_of l None"
    then have m: "matches l (def_epa ss) = []" and rn: "r = net_of l None"
      by simp_all
    from m have "group_values (agg_key l) ss = []" by (simp add: matches_empty_iff)
    then have "group_values (key_of r) ss = []" by (simp only: k)
    moreover from rn have "def_epa_per_play r = None" by (simp add: net_of_def)
    ultimately show ?thesis by simp
  next
    assume "\<exists>d\<in>set (matches l (def_epa ss)). r = net_of l (epa_per_play d)"
    then obtain d where d: "d \<in> set (matches l (def_epa ss))" and rd: "r = net_of l (epa_per_play d)"
      by blast
    from d have dk: "agg_key d = agg_key l" and dd: "d \<in> set (def_epa ss)"
      by (simp_all add: matches_def)
    from d have "matches l (def_epa ss) \<noteq> []" by auto
    then have "group_values (key_of r) ss \<noteq> []" by (simp add: matches_empty_iff k)
    moreover from def_epa_row(2) [OF dd] dk k rd
    have "def_epa_per_play r = fneg (mean_present (group_values (key_of r) ss))"
      by (simp add: net_of_def)
    ultimately show ?thesis by simp
  qed
qed

subsection \<open>Over float64 arithmetic\<close>

lemma off_epa_f64_row:
  assumes "a \<in> set (off_epa_f64 ar rs)"
  shows "g_key a \<in> fst ` set rs"
    and "g_per_play a = mean_f64 ar (group_values (g_key a) rs)"
proof -
  from assms obtain k where k: "k \<in> set (group_keys rs)"
    and a: "a = \<lparr>g_key = k, g_total = f_sum ar (present_f64 ar (group_values k rs)),
                 g_plays = length (present_f64 ar (group_values k rs)),
                 g_per_play = mean_f64 ar (group_values k rs)\<rparr>"
    by (auto simp: off_epa_f64_def Let_def mean_f64_def)
  from k a show "g_key a \<in> fst ` set rs" by (simp add: set_group_keys)
  from a show "g_per_play a = mean_f64 ar (group_values (g_key a) rs)" by simp
qed

lemma def_epa_f64_row:
  assumes "a \<in> set (def_epa_f64 ar rs)"
  shows "g_key a \<in> fst ` set rs"
    and "g_per_play a = neg_mean_f64 ar (group_values (g_key a) rs)"
proof -
  from assms obtain k where k: "k \<in> set (group_keys rs)"
    and a: "a = \<lparr>g_key = k, g_total = f_sum ar (present_f64 ar (group_values k rs)),
                 g_plays = length (present_f64 ar (group_values k rs)),
                 g_per_play = neg_mean_f64 ar (group_values k rs)\<rparr>"
    by (auto simp: def_epa_f64_def Let_def neg_mean_f64_def)
  from k a show "g_key a \<in> fst ` set rs" by (simp add: set_group_keys)
  from a show "g_per_play a = neg_mean_f64 ar (group_values (g_key a) rs)" by simp
qed

lemma def_epa_f64_keys: "map g_key (def_epa_f64 ar rs) = group_keys rs"
  by (simp add: def_epa_f64_def Let_def o_def)

lemma matches_f64_empty_iff:
  "matches_f64 l (def_epa_f64 ar rs) = [] \<longleftrightarrow> group_values (g_key l) rs = []"
proof -
  have "matches_f64 l (def_epa_f64 ar rs) = [] \<longleftrightarrow>
        g_key l \<notin> set (map g_key (def_epa_f64 ar rs))"
    unfolding matches_f64_def filter_empty_conv set_map image_iff by metis
  then show ?thesis
    by (simp add: def_epa_f64_keys set_group_keys group_values_empty_iff)
qed

lemma merge_left_f64_row:
  assumes "r \<in> set (merge_left_f64 ar lefts rights)"
  shows "\<exists>l\<in>set lefts. (matches_f64 l rights = [] \<and> r = net_of_f64 ar l (f_nan ar)) \<or>
           (\<exists>d\<in>set (matches_f64 l rights). r = net_of_f64 ar l (g_per_play d))"
proof -
  from assms obtain l where l: "l \<in> set lefts"
    and r: "r \<in> set (case matches_f64 l rights of [] \<Rightarrow> [net_of_f64 ar l (f_nan ar)]
                | rs \<Rightarrow> map (\<lambda>r. net_of_f64 ar l (g_per_play r)) rs)"
    by (auto simp: merge_left_f64_def)
  show ?thesis
  proof (cases "matches_f64 l rights")
    case Nil
    with l r show ?thesis by auto
  next
    case (Cons d ds)
    with r have "r \<in> (\<lambda>r. net_of_f64 ar l (g_per_play r)) ` set (matches_f64 l rights)"
      by simp
    with l show ?thesis by blast
  qed
qed

lemma merged_row_f64:
  assumes "r \<in> set (merge_left_f64 ar (off_epa_f64 ar rs) (def_epa_f64 ar ss))"
  shows "group_values (game r, team r) rs \<noteq> []"
    and "off_per_play r = mean_f64 ar (group_values (game r, team r) rs)"
    and "def_per_play r =
           (if group_values (game r, team r) ss = [] then f_nan ar
            else neg_mean_f64 ar (group_values (game r, team r) ss))"
    and "net_per_play r = f_add ar (off_per_play r) (def_per_play r)"
proof -
  from merge_left_f64_row [OF assms] obtain l where l: "l \<in> set (off_epa_f64 ar rs)"
    and r: "(matches_f64 l (def_epa_f64 ar ss) = [] \<and> r = net_of_f64 ar l (f_nan ar)) \<or>
           (\<exists>d\<in>set (matches_f64 l (def_epa_f64 ar ss)). r = net_of_f64 ar l (g_per_play d))"
    by blast
  from r have k: "(game r, team r) = g_key l" by (auto simp: net_of_f64_def)
  from r have o: "off_per_play r = g_per_play l" by (auto simp: net_of_f64_def)
  from off_epa_f64_row(1) [OF l] show "group_values (game r, team r) rs \<noteq> []"
    by (simp only: k group_values_empty_iff not_not)
  from off_epa_f64_row(2) [OF l] o
  show "off_per_play r = mean_f64 ar (group_values (game r, team r) rs)"
    by (simp only: k)
  from r show "net_per_play r = f_add ar (off_per_play r) (def_per_play r)"
    by (auto simp: net_of_f64_def)
  from r show "def_per_play r =
           (if group_values (game r, team r) ss = [] then f_nan ar
            else neg_mean_f64 ar (group_values (game r, team r) ss))"
  proof
    assume "matches_f64 l (def_epa_f64 ar ss) = [] \<and> r = net_of_f64 ar l (f_nan ar)"
    then have m: "matches_f64 l (def_epa_f64 ar ss) = []" and rn: "r = net_of_f64 ar l (f_nan ar)"
      by simp_all
    from m have "group_values (g_key l) ss = []" by (simp add: matches_f64_empty_iff)
    with k have "group_values (game r, team r) ss = []" by simp
    moreover from rn have "def_per_play r = f_nan ar" by (simp add: net_of_f64_def)
    ultimately show ?thesis by simp
  next
    assume "\<exists>d\<in>set (matches_f64 l (def_epa_f64 ar ss)). r = net_of_f64 ar l (g_per_play d)"
    then obtain d where d: "d \<in> set (matches_f64 l (def_epa_f64 ar ss))"
      and rd: "r = net_of_f64 ar l (g_per_play d)"
      by blast
    from d have dk: "g_key d = g_key l" and dd: "d \<in> set (def_epa_f64 ar ss)"
      by (simp_all add: matches_f64_def)
    from d have "matches_f64 l (def_epa_f64 ar ss) \<noteq> []" by auto
    then have "group_values (g_key l) ss \<noteq> []" by (simp add: matches_f64_empty_iff)
    with k have ne: "group_values (game r, team r) ss \<noteq> []" by simp
    from rd have "def_per_play r = g_per_play d" by (simp add: net_of_f64_def)
    with def_epa_f64_row(2) [OF dd]
    have "def_per_play r = neg_mean_f64 ar (group_values (g_key l) ss)" by (simp only: dk)
    with k have "def_per_play r = neg_mean_f64 ar (group_values (game r, team r) ss)"
      by simp
    with ne show ?thesis by simp
  qed
qed

lemma present_f64_all: "\<forall>v\<in>set vs. \<not> f_isnan ar v \<Longrightarrow> present_f64 ar vs = vs"
  by (simp add: present_f64_def)

subsection \<open>The first translation is the second at exact arithmetic\<close>

lemma calculate_epa_exact: "calculate_epa df = calculate_epa_f64 exact_arith df"
  by (simp add: calculate_epa_def calculate_epa_f64_def mock_all_def mock_all_f64_def
      mock_missing_def mock_missing_f64_def exact_arith_def scalar_column_def Let_def)

lemma present_exact: "present (present_f64 exact_arith vs) = present vs"
  by (induction vs) (auto simp: present_def present_f64_def exact_arith_def List.map_filter_simps)

lemma length_present_exact: "length (present_f64 exact_arith vs) = agg_count vs"
  by (induction vs) (auto simp: agg_count_def present_def present_f64_def exact_arith_def List.map_filter_simps)

lemma exact_arith_simps:
  "f_sum exact_arith vs = Some (agg_sum vs)"
  "f_div exact_arith (Some x) n = fdiv x n"
  "f_neg exact_arith (Some x) = Some (- x)"
  "f_nan exact_arith = None"
  "f_add exact_arith = fadd"
  by (simp_all add: exact_arith_def)

lemma agg_sum_present_exact: "agg_sum (present_f64 exact_arith vs) = agg_sum vs"
  by (simp add: agg_sum_def present_exact)

lemma off_epa_exact: "off_epa rs = map to_agg_row (off_epa_f64 exact_arith rs)"
  by (simp add: off_epa_def off_epa_f64_def to_agg_row_def Let_def length_present_exact
      exact_arith_simps agg_sum_present_exact)

lemma def_epa_exact: "def_epa rs = map to_agg_row (def_epa_f64 exact_arith rs)"
  by (simp add: def_epa_def def_epa_f64_def to_agg_row_def Let_def length_present_exact
      exact_arith_simps agg_sum_present_exact)

lemma matches_exact: "matches (to_agg_row l) (map to_agg_row rs) = map to_agg_row (matches_f64 l rs)"
  by (induction rs) (auto simp: matches_def matches_f64_def to_agg_row_def)

lemma net_of_exact:
  "net_of (to_agg_row l) d = to_net_row (net_of_f64 exact_arith l d)"
  by (simp add: net_of_def net_of_f64_def to_net_row_def to_agg_row_def exact_arith_simps)

lemma per_play_to_agg_row: "epa_per_play (to_agg_row r) = g_per_play r"
  by (simp add: to_agg_row_def)

lemma merge_left_exact:
  "merge_left (map to_agg_row ls) (map to_agg_row rs) =
     map to_net_row (merge_left_f64 exact_arith ls rs)"
proof (induction ls)
  case Nil
  then show ?case by (simp add: merge_left_def merge_left_f64_def)
next
  case (Cons l ls)
  have a: "merge_left (map to_agg_row (l # ls)) (map to_agg_row rs) =
      (case matches (to_agg_row l) (map to_agg_row rs) of
         [] \<Rightarrow> [net_of (to_agg_row l) None]
       | ms \<Rightarrow> map (\<lambda>r. net_of (to_agg_row l) (epa_per_play r)) ms) @
      merge_left (map to_agg_row ls) (map to_agg_row rs)"
    by (simp add: merge_left_def)
  have b: "merge_left_f64 exact_arith (l # ls) rs =
      (case matches_f64 l rs of
         [] \<Rightarrow> [net_of_f64 exact_arith l (f_nan exact_arith)]
       | ms \<Rightarrow> map (\<lambda>r. net_of_f64 exact_arith l (g_per_play r)) ms) @
      merge_left_f64 exact_arith ls rs"
    by (simp add: merge_left_f64_def)
  have n: "f_nan exact_arith = None" by (simp add: exact_arith_simps)
  show ?case
    unfolding a b matches_exact Cons.IH
    by (cases "matches_f64 l rs") (simp_all add: net_of_exact n per_play_to_agg_row o_def)
qed

lemma aggregate_exact:
  "aggregate_net_epa df = map_sum id (map to_net_row) (aggregate_net_epa_f64 exact_arith df)"
  by (simp add: aggregate_net_epa_def aggregate_net_epa_f64_def off_epa_exact def_epa_exact
      merge_left_exact split: option.splits)

section \<open>Properties of aggregate_net_epa\<close>

lemmas aggregate_eval =
  aggregate_net_epa_def keyed_rows_def List.map_filter_simps off_epa_def def_epa_def
  group_keys_def group_values_def agg_sum_def agg_count_def present_def fdiv_def
  merge_left_def matches_def net_of_def Let_def

lemma g1_aggregate: "aggregate_net_epa g1_plays = Inr [g1_row]"
  by (simp add: g1_plays_def g1_row_def aggregate_eval)

lemma mixed_aggregate: "aggregate_net_epa mixed_plays = Inr mixed_net"
  by (simp add: mixed_plays_def mixed_net_def aggregate_eval)

text \<open>
  Claim C10. The result of aggregate_net_epa has at most one row for each pair of game
  identifier and team code: the group keys are distinct on both sides, so the left join pairs
  an offensive row with at most one defensive aggregate and repeats no key.
\<close>

theorem aggregate_keys_distinct:
  assumes "aggregate_net_epa df = Inr out"
  shows "distinct (map (\<lambda>r. (game_id r, posteam r)) out) \<and>
         (\<forall>g t. length (filter (\<lambda>r. (game_id r, posteam r) = (g, t)) out) \<le> 1)"
proof -
  from assms obtain gs ps ds es
    where out: "out = merge_left (off_epa (keyed_rows gs ps es)) (def_epa (keyed_rows gs ds es))"
    by (rule aggregate_columns)
  have "distinct (map agg_key (def_epa (keyed_rows gs ds es)))"
    by (simp only: def_epa_keys distinct_group_keys)
  then have "map key_of out = map agg_key (off_epa (keyed_rows gs ps es))"
    unfolding out by (rule merge_left_keys)
  then have "distinct (map key_of out)"
    by (simp only: off_epa_keys distinct_group_keys)
  then have d: "distinct (map (\<lambda>r. (game_id r, posteam r)) out)"
    by (simp add: key_of_def [abs_def])
  from at_most_one [OF d] d show ?thesis by blast
qed

theorem aggregate_keys_distinct_witness:
  "aggregate_net_epa mixed_plays = Inr mixed_net \<and>
   map (\<lambda>r. (game_id r, posteam r)) mixed_net = [(''G1'', ''A''), (''G1'', ''B'')] \<and>
   distinct (map (\<lambda>r. (game_id r, posteam r)) mixed_net)"
proof -
  have "map (\<lambda>r. (game_id r, posteam r)) mixed_net = [(''G1'', ''A''), (''G1'', ''B'')]"
    by (simp add: mixed_net_def)
  with aggregate_keys_distinct [OF mixed_aggregate] mixed_aggregate show ?thesis by blast
qed

text \<open>
  Claim C1, as the code has it. When no play of the table has team T on defense in game G,
  the left join leaves the defensive per-play value of the row of T in G missing, the sum with
  a missing value is missing, and the row is recommended as "Avoid" and "No Bet" with a
  missing confidence. In the scenario of game G1, team A's row has the offensive value 0.2,
  no defensive value and no net value.
\<close>

theorem no_defense_aggregate_is_missing:
  assumes "aggregate_net_epa df = Inr out" and "r \<in> set out"
    and "game_id_col df = Some gs" and "defteam_col df = Some ds"
    and "(Some (game_id r), Some (posteam r)) \<notin> set (zip gs ds)"
  shows "def_epa_per_play r = None \<and> net_epa_per_play r = None \<and>
         recommend r \<in> set (rows (generate_betting_recommendations out)) \<and>
         bet_favorite (recommend r) = ''Avoid'' \<and> confidence (recommend r) = None \<and>
         bet_type (recommend r) = ''No Bet''"
proof -
  from assms(1) obtain gs' ps ds' es
    where cols: "game_id_col df = Some gs'" "defteam_col df = Some ds'"
      and out: "out = merge_left (off_epa (keyed_rows gs' ps es)) (def_epa (keyed_rows gs' ds' es))"
    by (rule aggregate_columns)
  from cols assms(3,4) have eq: "gs' = gs" "ds' = ds" by simp_all
  have "plays_of gs ds es (key_of r) = []"
    using assms(5) by (auto simp: plays_of_def key_of_def filter_empty_conv dest: zip3_fst)
  then have none: "group_values (key_of r) (keyed_rows gs ds es) = []"
    by (simp only: group_values_keyed)
  from assms(2) have r: "r \<in> set (merge_left (off_epa (keyed_rows gs ps es)) (def_epa (keyed_rows gs ds es)))"
    by (simp add: out eq)
  from merged_row(3) [OF r] none have d: "def_epa_per_play r = None" by simp
  with merged_row(4) [OF r] have n: "net_epa_per_play r = None"
    by (cases "off_epa_per_play r") simp_all
  from assms(2) have "out \<noteq> []" by auto
  with assms(2) have "recommend r \<in> set (rows (generate_betting_recommendations out))"
    by (simp add: generate_betting_recommendations_def)
  with d n show ?thesis by (simp add: recommend_def)
qed

theorem no_defense_aggregate_is_missing_witness:
  "aggregate_net_epa g1_plays = Inr [g1_row] \<and>
   (Some ''G1'', Some ''A'') \<notin> set (zip [Some ''G1'', Some ''G1''] [Some ''B'', Some ''B'']) \<and>
   off_epa_per_play g1_row = Some 0.2 \<and> def_epa_per_play g1_row = None \<and>
   net_epa_per_play g1_row = None \<and> bet_favorite (recommend g1_row) = ''Avoid'' \<and>
   confidence (recommend g1_row) = None \<and> bet_type (recommend g1_row) = ''No Bet''"
proof -
  have r: "g1_row \<in> set [g1_row]" by simp
  have g: "game_id_col g1_plays = Some [Some ''G1'', Some ''G1'']"
    and d: "defteam_col g1_plays = Some [Some ''B'', Some ''B'']"
    by (simp_all add: g1_plays_def)
  have n: "(Some (game_id g1_row), Some (posteam g1_row)) \<notin>
           set (zip [Some ''G1'', Some ''G1''] [Some ''B'', Some ''B''])"
    by (simp add: g1_row_def)
  from no_defense_aggregate_is_missing [OF g1_aggregate r g d n] g1_aggregate n
  show ?thesis by (simp add: g1_row_def)
qed

text \<open>
  Claim C1 as stated fails in its own scenario: the defensive and net values are missing,
  not 0.0 and 0.2, and the row says "Avoid" and "No Bet".
\<close>

theorem g1_scenario_not_as_expected:
  "aggregate_net_epa g1_plays = Inr [g1_row] \<and>
   rows (generate_betting_recommendations [g1_row]) =
     [\<lparr>game_id = ''G1'', posteam = ''A'', off_epa_per_play = Some 0.2,
       def_epa_per_play = None, net_epa_per_play = None,
       bet_favorite = ''Avoid'', confidence = None, bet_type = ''No Bet''\<rparr>] \<and>
   rows (generate_betting_recommendations [g1_row]) \<noteq> [g1_row_expected]"
  by (simp add: g1_aggregate)
     (simp add: generate_betting_recommendations_def recommend_def g1_row_def g1_row_expected_def)

lemmas aggregate_f64_eval =
  aggregate_net_epa_f64_def keyed_rows_def List.map_filter_simps off_epa_f64_def def_epa_f64_def
  group_keys_def group_values_def present_f64_def exact_arith_def agg_sum_def present_def
  fdiv_def merge_left_f64_def matches_f64_def net_of_f64_def Let_def

lemma mixed_aggregate_f64: "aggregate_net_epa_f64 exact_arith mixed_plays = Inr mixed_net_f64"
  by (simp add: mixed_plays_def mixed_net_f64_def aggregate_f64_eval)

lemma mixed_columns:
  "game_id_col mixed_plays = Some [Some ''G1'', Some ''G1'', Some ''G1'', None]"
  "posteam_col mixed_plays = Some [Some ''B'', Some ''A'', Some ''A'', Some ''A'']"
  "defteam_col mixed_plays = Some [Some ''A'', Some ''B'', Some ''B'', Some ''B'']"
  "epa_col mixed_plays = Some [Some 2, Some 1, None, Some 5]"
  by (simp_all add: mixed_plays_def)

text \<open>
  Claim C5, as the code has it. The offensive per-play value of a group is the sum of the
  efficiency values of its plays that are not missing over the count of those values, which
  is the row count when none is missing; the defensive per-play value is the negated sum over
  that count, the negation of that mean where division commutes with negation; every group
  has a play; and in every row of the result the offensive value is that of the row's team on
  offense in its game, the defensive value that of the same team on defense, NaN when it has
  no play on defense, and the net value is the float64 sum of the two. Sum, quotient and
  addition are the ones of the machine, whatever they give.
\<close>

theorem per_play_values:
  assumes "aggregate_net_epa_f64 ar df = Inr out"
    and "game_id_col df = Some gs" and "posteam_col df = Some ps"
    and "defteam_col df = Some ds" and "epa_col df = Some es"
  shows "(\<forall>a\<in>set (off_epa_f64 ar (keyed_rows gs ps es)).
            plays_of gs ps es (g_key a) \<noteq> [] \<and>
            g_per_play a = mean_f64 ar (plays_of gs ps es (g_key a)) \<and>
            ((\<forall>v\<in>set (plays_of gs ps es (g_key a)). \<not> f_isnan ar v) \<longrightarrow>
               g_per_play a = sum_over_rows_f64 ar (plays_of gs ps es (g_key a)))) \<and>
         (\<forall>a\<in>set (def_epa_f64 ar (keyed_rows gs ds es)).
            plays_of gs ds es (g_key a) \<noteq> [] \<and>
            g_per_play a = neg_mean_f64 ar (plays_of gs ds es (g_key a)) \<and>
            ((\<forall>s n. f_div ar (f_neg ar s) n = f_neg ar (f_div ar s n)) \<longrightarrow>
               g_per_play a = f_neg ar (mean_f64 ar (plays_of gs ds es (g_key a))))) \<and>
         (\<forall>r\<in>set out.
            plays_of gs ps es (game r, team r) \<noteq> [] \<and>
            off_per_play r = mean_f64 ar (plays_of gs ps es (game r, team r)) \<and>
            def_per_play r =
              (if plays_of gs ds es (game r, team r) = [] then f_nan ar
               else neg_mean_f64 ar (plays_of gs ds es (game r, team r))) \<and>
            net_per_play r = f_add ar (off_per_play r) (def_per_play r))"
proof (intro conjI ballI)
  fix a assume a: "a \<in> set (off_epa_f64 ar (keyed_rows gs ps es))"
  from off_epa_f64_row(1) [OF a] show "plays_of gs ps es (g_key a) \<noteq> []"
    by (simp add: group_values_keyed [symmetric] group_values_empty_iff)
  from off_epa_f64_row(2) [OF a]
  show m: "g_per_play a = mean_f64 ar (plays_of gs ps es (g_key a))"
    by (simp only: group_values_keyed)
  show "(\<forall>v\<in>set (plays_of gs ps es (g_key a)). \<not> f_isnan ar v) \<longrightarrow>
          g_per_play a = sum_over_rows_f64 ar (plays_of gs ps es (g_key a))"
    using m by (simp add: mean_f64_def sum_over_rows_f64_def present_f64_all)
next
  fix a assume a: "a \<in> set (def_epa_f64 ar (keyed_rows gs ds es))"
  from def_epa_f64_row(1) [OF a] show "plays_of gs ds es (g_key a) \<noteq> []"
    by (simp add: group_values_keyed [symmetric] group_values_empty_iff)
  from def_epa_f64_row(2) [OF a]
  show m: "g_per_play a = neg_mean_f64 ar (plays_of gs ds es (g_key a))"
    by (simp only: group_values_keyed)
  show "(\<forall>s n. f_div ar (f_neg ar s) n = f_neg ar (f_div ar s n)) \<longrightarrow>
          g_per_play a = f_neg ar (mean_f64 ar (plays_of gs ds es (g_key a)))"
    using m by (simp add: mean_f64_def neg_mean_f64_def)
next
  fix r assume "r \<in> set out"
  with assms have r: "r \<in> set (merge_left_f64 ar (off_epa_f64 ar (keyed_rows gs ps es))
                                  (def_epa_f64 ar (keyed_rows gs ds es)))"
    by (simp add: aggregate_net_epa_f64_def)
  from merged_row_f64(1) [OF r] show "plays_of gs ps es (game r, team r) \<noteq> []"
    by (simp add: group_values_keyed)
  from merged_row_f64(2) [OF r]
  show "off_per_play r = mean_f64 ar (plays_of gs ps es (game r, team r))"
    by (simp only: group_values_keyed)
  from merged_row_f64(3) [OF r]
  show "def_per_play r =
          (if plays_of gs ds es (game r, team r) = [] then f_nan ar
           else neg_mean_f64 ar (plays_of gs ds es (game r, team r)))"
    by (simp only: group_values_keyed)
  from merged_row_f64(4) [OF r]
  show "net_per_play r = f_add ar (off_per_play r) (def_per_play r)" .
qed

theorem per_play_values_witness:
  "aggregate_net_epa_f64 exact_arith mixed_plays = Inr mixed_net_f64 \<and>
   hd mixed_net_f64 \<in> set mixed_net_f64 \<and>
   (game (hd mixed_net_f64), team (hd mixed_net_f64)) = (''G1'', ''A'') \<and>
   plays_of [Some ''G1'', Some ''G1'', Some ''G1'', None]
     [Some ''B'', Some ''A'', Some ''A'', Some ''A'']
     [Some (2::real), Some 1, None, Some 5] (''G1'', ''A'') = [Some 1, None] \<and>
   off_per_play (hd mixed_net_f64) = mean_f64 exact_arith [Some 1, None] \<and>
   mean_f64 exact_arith [Some 1, None] = Some 1 \<and>
   plays_of [Some ''G1'', Some ''G1'', Some ''G1'', None]
     [Some ''A'', Some ''B'', Some ''B'', Some ''B'']
     [Some (2::real), Some 1, None, Some 5] (''G1'', ''A'') = [Some 2] \<and>
   def_per_play (hd mixed_net_f64) = neg_mean_f64 exact_arith [Some 2] \<and>
   neg_mean_f64 exact_arith [Some 2] = Some (- 2) \<and>
   net_per_play (hd mixed_net_f64) =
     f_add exact_arith (off_per_play (hd mixed_net_f64)) (def_per_play (hd mixed_net_f64)) \<and>
   net_per_play (hd mixed_net_f64) = Some (- 1)"
proof -
  have h: "hd mixed_net_f64 \<in> set mixed_net_f64"
    and k: "(game (hd mixed_net_f64), team (hd mixed_net_f64)) = (''G1'', ''A'')"
    and n: "net_per_play (hd mixed_net_f64) = Some (- 1)"
    by (simp_all add: mixed_net_f64_def)
  have o: "plays_of [Some ''G1'', Some ''G1'', Some ''G1'', None]
     [Some ''B'', Some ''A'', Some ''A'', Some ''A'']
     [Some 2, Some 1, None, Some 5] (''G1'', ''A'') = [Some (1::real), None]"
    and d: "plays_of [Some ''G1'', Some ''G1'', Some ''G1'', None]
     [Some ''A'', Some ''B'', Some ''B'', Some ''B'']
     [Some 2, Some 1, None, Some 5] (''G1'', ''A'') = [Some (2::real)]"
    by (simp_all add: plays_of_def)
  have m: "mean_f64 exact_arith [Some 1, None] = Some 1"
    "neg_mean_f64 exact_arith [Some 2] = Some (- 2)"
    by (simp_all add: mean_f64_def neg_mean_f64_def present_f64_def exact_arith_def agg_sum_def
        present_def List.map_filter_simps fdiv_def)
  from per_play_values [OF mixed_aggregate_f64 mixed_columns] h
  have "off_per_play (hd mixed_net_f64) =
          mean_f64 exact_arith (plays_of [Some ''G1'', Some ''G1'', Some ''G1'', None]
            [Some ''B'', Some ''A'', Some ''A'', Some ''A'']
            [Some (2::real), Some 1, None, Some 5] (game (hd mixed_net_f64), team (hd mixed_net_f64)))"
    and "def_per_play (hd mixed_net_f64) =
          (if plays_of [Some ''G1'', Some ''G1'', Some ''G1'', None]
                [Some ''A'', Some ''B'', Some ''B'', Some ''B'']
                [Some (2::real), Some 1, None, Some 5]
                (game (hd mixed_net_f64), team (hd mixed_net_f64)) = []
           then f_nan exact_arith
           else neg_mean_f64 exact_arith
                  (plays_of [Some ''G1'', Some ''G1'', Some ''G1'', None]
                     [Some ''A'', Some ''B'', Some ''B'', Some ''B'']
                     [Some (2::real), Some 1, None, Some 5]
                     (game (hd mixed_net_f64), team (hd mixed_net_f64))))"
    and s: "net_per_play (hd mixed_net_f64) =
          f_add exact_arith (off_per_play (hd mixed_net_f64)) (def_per_play (hd mixed_net_f64))"
    by blast+
  then have "off_per_play (hd mixed_net_f64) = mean_f64 exact_arith [Some 1, None]"
    and "def_per_play (hd mixed_net_f64) = neg_mean_f64 exact_arith [Some 2]"
    by (simp_all only: k o d list.simps if_False)
  with mixed_aggregate_f64 h k o d m s n show ?thesis by blast
qed

text \<open>
  Claim C5 as stated fails: team A has two plays on offense in game G1, one of them without
  an efficiency value. Their sum is 1 and the row count 2, but the per-play value is 1: the
  count that divides the sum skips the missing value. No operation of this example rounds.
\<close>

theorem per_play_is_not_sum_over_rows:
  "aggregate_net_epa_f64 exact_arith mixed_plays = Inr mixed_net_f64 \<and>
   plays_of (the (game_id_col mixed_plays)) (the (posteam_col mixed_plays))
     (the (epa_col mixed_plays)) (''G1'', ''A'') = [Some 1, None] \<and>
   off_per_play (hd mixed_net_f64) = Some 1 \<and>
   sum_over_rows_f64 exact_arith [Some 1, None] = Some (1 / 2) \<and>
   off_per_play (hd mixed_net_f64) \<noteq> sum_over_rows_f64 exact_arith [Some 1, None]"
  by (simp add: mixed_aggregate_f64)
     (simp add: mixed_plays_def mixed_net_f64_def plays_of_def sum_over_rows_f64_def
        present_f64_def exact_arith_def agg_sum_def present_def List.map_filter_simps fdiv_def)

section \<open>Properties of generate_betting_recommendations\<close>

lemma net_part_recommend: "net_part (recommend r) = r"
  by (simp add: net_part_def recommend_def Let_def)

lemma rows_generate:
  "rows (generate_betting_recommendations net_epa) =
     map recommend (if net_epa = [] then mock_rows else net_epa)"
  by (simp add: generate_betting_recommendations_def)

lemma recommend_fields:
  "(bet_favorite (recommend r) = ''Bet'' \<longleftrightarrow> (\<exists>x. net_epa_per_play r = Some x \<and> 0 < x))"
  "bet_favorite (recommend r) \<noteq> ''Bet'' \<longrightarrow> bet_favorite (recommend r) = ''Avoid''"
  "confidence (recommend r) = fabs (net_epa_per_play r)"
  "(bet_type (recommend r) = ''Spread'' \<longleftrightarrow> (\<exists>c. confidence (recommend r) = Some c \<and> 0.05 < c))"
  "bet_type (recommend r) \<noteq> ''Spread'' \<longrightarrow> bet_type (recommend r) = ''No Bet''"
  "net_epa_per_play (recommend r) = net_epa_per_play r"
  by (cases "net_epa_per_play r"; simp add: recommend_def Let_def)+

text \<open>
  Claim C6, as the code has it. The rows recommended are the rows given (the mock rows for an
  empty table). In each of them the decision is "Bet" exactly when the net value is a number
  above 0, and "Avoid" otherwise, so at 0; the confidence is the absolute value of the net
  value, not negative when the net value is a number and missing when it is missing; the
  bet type is "Spread" exactly when the confidence is a number above 0.05, and "No Bet"
  otherwise, so at 0.05.
\<close>

theorem recommendation_thresholds:
  "map net_part (rows (generate_betting_recommendations net_epa)) =
     (if net_epa = [] then mock_rows else net_epa) \<and>
   (\<forall>r\<in>set (rows (generate_betting_recommendations net_epa)).
      (bet_favorite r = ''Bet'' \<longleftrightarrow> (\<exists>x. net_epa_per_play r = Some x \<and> 0 < x)) \<and>
      (bet_favorite r \<noteq> ''Bet'' \<longrightarrow> bet_favorite r = ''Avoid'') \<and>
      (net_epa_per_play r = Some 0 \<longrightarrow> bet_favorite r = ''Avoid'') \<and>
      (\<forall>x. net_epa_per_play r = Some x \<longrightarrow> confidence r = Some \<bar>x\<bar> \<and> 0 \<le> \<bar>x\<bar>) \<and>
      (net_epa_per_play r = None \<longrightarrow> confidence r = None \<and> bet_favorite r = ''Avoid'' \<and>
         bet_type r = ''No Bet'') \<and>
      (bet_type r = ''Spread'' \<longleftrightarrow> (\<exists>c. confidence r = Some c \<and> 0.05 < c)) \<and>
      (bet_type r \<noteq> ''Spread'' \<longrightarrow> bet_type r = ''No Bet'') \<and>
      (confidence r = Some 0.05 \<longrightarrow> bet_type r = ''No Bet''))"
proof (intro conjI ballI)
  show "map net_part (rows (generate_betting_recommendations net_epa)) =
     (if net_epa = [] then mock_rows else net_epa)"
    by (simp add: rows_generate o_def net_part_recommend)
next
  fix r assume "r \<in> set (rows (generate_betting_recommendations net_epa))"
  then obtain n where r: "r = recommend n" by (auto simp: rows_generate)
  note f = recommend_fields [of n, folded r]
  show b: "bet_favorite r = ''Bet'' \<longleftrightarrow> (\<exists>x. net_epa_per_play r = Some x \<and> 0 < x)"
    using f(1,6) by simp
  show "bet_favorite r \<noteq> ''Bet'' \<longrightarrow> bet_favorite r = ''Avoid''" by (rule f(2))
  show "net_epa_per_play r = Some 0 \<longrightarrow> bet_favorite r = ''Avoid''"
    using b f(2) by auto
  show "\<forall>x. net_epa_per_play r = Some x \<longrightarrow> confidence r = Some \<bar>x\<bar> \<and> 0 \<le> \<bar>x\<bar>"
    using f(3,6) by simp
  show t: "bet_type r = ''Spread'' \<longleftrightarrow> (\<exists>c. confidence r = Some c \<and> 0.05 < c)" by (rule f(4))
  show "bet_type r \<noteq> ''Spread'' \<longrightarrow> bet_type r = ''No Bet''" by (rule f(5))
  show "net_epa_per_play r = None \<longrightarrow> confidence r = None \<and> bet_favorite r = ''Avoid'' \<and>
         bet_type r = ''No Bet''"
    using b t f(2,3,5,6) by auto
  show "confidence r = Some 0.05 \<longrightarrow> bet_type r = ''No Bet''"
    using t f(5) by auto
qed

theorem recommendation_thresholds_witness:
  "map (\<lambda>r. (net_epa_per_play r, bet_favorite r, confidence r, bet_type r))
     (rows (generate_betting_recommendations boundary_rows)) =
     [(Some 0, ''Avoid'', Some 0, ''No Bet''),
      (Some (- 0.05), ''Avoid'', Some 0.05, ''No Bet''),
      (Some 0.2, ''Bet'', Some 0.2, ''Spread'')] \<and>
   map net_part (rows (generate_betting_recommendations boundary_rows)) = boundary_rows \<and>
   hd (rows (generate_betting_recommendations boundary_rows)) \<in>
     set (rows (generate_betting_recommendations boundary_rows)) \<and>
   net_epa_per_play (hd (rows (generate_betting_recommendations boundary_rows))) = Some 0 \<and>
   bet_favorite (hd (rows (generate_betting_recommendations boundary_rows))) = ''Avoid'' \<and>
   confidence (hd (rows (generate_betting_recommendations boundary_rows))) = Some \<bar>0\<bar>"
proof -
  let ?out = "rows (generate_betting_recommendations boundary_rows)"
  have e: "map (\<lambda>r. (net_epa_per_play r, bet_favorite r, confidence r, bet_type r)) ?out =
     [(Some 0, ''Avoid'', Some 0, ''No Bet''),
      (Some (- 0.05), ''Avoid'', Some 0.05, ''No Bet''),
      (Some 0.2, ''Bet'', Some 0.2, ''Spread'')]"
    by (simp add: generate_betting_recommendations_def boundary_rows_def recommend_def Let_def)
  have ne: "boundary_rows \<noteq> []"
    by (simp add: boundary_rows_def)
  have h: "hd ?out \<in> set ?out"
    by (simp add: generate_betting_recommendations_def boundary_rows_def)
  have z: "net_epa_per_play (hd ?out) = Some 0"
    by (simp add: generate_betting_recommendations_def boundary_rows_def recommend_def Let_def)
  from recommendation_thresholds [of boundary_rows] ne
  have p: "map net_part ?out = boundary_rows" by simp
  from recommendation_thresholds [of boundary_rows] h
  have "net_epa_per_play (hd ?out) = Some 0 \<longrightarrow> bet_favorite (hd ?out) = ''Avoid''"
    and "\<forall>x. net_epa_per_play (hd ?out) = Some x \<longrightarrow>
           confidence (hd ?out) = Some \<bar>x\<bar> \<and> 0 \<le> \<bar>x\<bar>"
    by blast+
  with z have "bet_favorite (hd ?out) = ''Avoid''" and "confidence (hd ?out) = Some \<bar>0\<bar>"
    by blast+
  with e p h z show ?thesis by blast
qed

text \<open>
  Claim C6 as stated fails on team A's row of game G1: its net value is missing, so is its
  confidence, and a missing value is not greater than or equal to 0.
\<close>

theorem missing_confidence_not_nonnegative:
  "rows (generate_betting_recommendations [g1_row]) =
     [\<lparr>game_id = ''G1'', posteam = ''A'', off_epa_per_play = Some 0.2,
       def_epa_per_play = None, net_epa_per_play = None,
       bet_favorite = ''Avoid'', confidence = None, bet_type = ''No Bet''\<rparr>] \<and>
   \<not> fge (confidence (hd (rows (generate_betting_recommendations [g1_row])))) 0"
  by (simp add: generate_betting_recommendations_def recommend_def g1_row_def Let_def)

text \<open>
  Claim C7. For the empty table the result has the two mock rows, recommended as "Bet",
  "Spread" and as "Avoid", "No Bet", and every result has the eight columns in the order of
  the final selection.
\<close>

theorem mock_recommendations:
  "generate_betting_recommendations [] =
     \<lparr>columns = [''game_id'', ''posteam'', ''off_epa_per_play'', ''def_epa_per_play'',
                 ''net_epa_per_play'', ''bet_favorite'', ''confidence'', ''bet_type''],
      rows =
        [\<lparr>game_id = ''MOCK_1'', posteam = ''TeamA'', off_epa_per_play = Some 0.05,
          def_epa_per_play = Some 0.03, net_epa_per_play = Some 0.08,
          bet_favorite = ''Bet'', confidence = Some 0.08, bet_type = ''Spread''\<rparr>,
         \<lparr>game_id = ''MOCK_1'', posteam = ''TeamB'', off_epa_per_play = Some (- 0.02),
          def_epa_per_play = Some (- 0.01), net_epa_per_play = Some (- 0.03),
          bet_favorite = ''Avoid'', confidence = Some 0.03, bet_type = ''No Bet''\<rparr>]\<rparr> \<and>
   columns (generate_betting_recommendations net_epa) =
     [''game_id'', ''posteam'', ''off_epa_per_play'', ''def_epa_per_play'',
      ''net_epa_per_play'', ''bet_favorite'', ''confidence'', ''bet_type'']"
  by (simp add: generate_betting_recommendations_def mock_rows_def recommend_def Let_def
      output_columns_def)

lemma generate_st_unfold:
  assumes "lookup h net_epa = Some t"
  shows "generate_betting_recommendations_st net_epa h =
     (if base t = []
      then Some (length h + 2,
                 h @ [t, annotate (Net mock_rows), annotate (Net mock_rows)])
      else Some (length h + 1, h @ [annotate t, annotate t]))"
  using assms
  by (simp add: generate_betting_recommendations_st_def alloc_def Let_def nth_append
      list_update_append)

text \<open>
  Claim C9. Called on a table of the store, generate_betting_recommendations returns, and
  afterwards the table it was given, like every other object that existed before the call,
  is what it was: the column assignments went to the copy. The result is a new object that
  holds the recommendations.
\<close>

theorem generate_leaves_input:
  assumes "lookup h net_epa = Some t"
  shows "\<exists>out h'. generate_betting_recommendations_st net_epa h = Some (out, h') \<and>
           lookup h' net_epa = Some t \<and>
           (\<forall>p<length h. lookup h' p = lookup h p) \<and>
           out \<noteq> net_epa \<and>
           lookup h' out =
             Some (Annotated (rows (generate_betting_recommendations (base t))))"
proof -
  from assms have lt: "net_epa < length h" and t: "h ! net_epa = t"
    by (simp_all add: lookup_def split: if_splits)
  show ?thesis
  proof (cases "base t = []")
    case True
    let ?h' = "h @ [t, annotate (Net mock_rows), annotate (Net mock_rows)]"
    have "generate_betting_recommendations_st net_epa h = Some (length h + 2, ?h')"
      using generate_st_unfold [OF assms] True by simp
    moreover have "lookup ?h' net_epa = Some t"
      using lt t by (simp add: lookup_def nth_append)
    moreover have "\<forall>p<length h. lookup ?h' p = lookup h p"
      by (simp add: lookup_def nth_append)
    moreover have "length h + 2 \<noteq> net_epa" using lt by simp
    moreover have "lookup ?h' (length h + 2) =
        Some (Annotated (rows (generate_betting_recommendations (base t))))"
      using True by (simp add: lookup_def nth_append annotate_def
          generate_betting_recommendations_def)
    ultimately show ?thesis by blast
  next
    case False
    let ?h' = "h @ [annotate t, annotate t]"
    have "generate_betting_recommendations_st net_epa h = Some (length h + 1, ?h')"
      using generate_st_unfold [OF assms] False by simp
    moreover have "lookup ?h' net_epa = Some t"
      using lt t by (simp add: lookup_def nth_append)
    moreover have "\<forall>p<length h. lookup ?h' p = lookup h p"
      by (simp add: lookup_def nth_append)
    moreover have "length h + 1 \<noteq> net_epa" using lt by simp
    moreover have "lookup ?h' (length h + 1) =
        Some (Annotated (rows (generate_betting_recommendations (base t))))"
      using False by (simp add: lookup_def nth_append annotate_def
          generate_betting_recommendations_def)
    ultimately show ?thesis by blast
  qed
qed

theorem generate_leaves_input_witness:
  "lookup [Net mixed_net, Net []] 0 = Some (Net mixed_net) \<and>
   (\<exists>out h'. generate_betting_recommendations_st 0 [Net mixed_net, Net []] = Some (out, h') \<and>
      lookup h' 0 = Some (Net mixed_net) \<and> lookup h' 1 = Some (Net []) \<and> out \<noteq> 0)"
proof -
  have l: "lookup [Net mixed_net, Net []] 0 = Some (Net mixed_net)"
    by (simp add: lookup_def)
  from generate_leaves_input [OF l] obtain out h'
    where g: "generate_betting_recommendations_st 0 [Net mixed_net, Net []] = Some (out, h')"
      and i: "lookup h' 0 = Some (Net mixed_net)"
      and f: "\<forall>p<length [Net mixed_net, Net []]. lookup h' p = lookup [Net mixed_net, Net []] p"
      and o: "out \<noteq> 0"
    by blast
  from f have "lookup h' 1 = Some (Net [])" by (simp add: lookup_def)
  with l g i o show ?thesis by blast
qed

section \<open>Properties of fetch_pbp_data\<close>

text \<open>
  Claim C8, as the code has it. When the first request returns a table that is not empty,
  that table is returned and nothing more is requested. When it raises or returns an empty
  table, exactly one more request is made, for season 2024, and its answer is the outcome:
  the table it returns, empty or not, or the exception it raises, which reaches the caller.
  The exception of the first request never does.
\<close>

theorem fetch_single_fallback:
  "(\<forall>d. up (length reqs) season = Inr d \<and> \<not> frame_empty d \<longrightarrow>
       fetch_pbp_data up season reqs = (Inr d, reqs @ [season])) \<and>
   ((\<exists>e. up (length reqs) season = Inl e) \<or>
    (\<exists>d. up (length reqs) season = Inr d \<and> frame_empty d) \<longrightarrow>
       fetch_pbp_data up season reqs =
         (up (Suc (length reqs)) 2024, reqs @ [season, 2024]))"
  by (auto simp: fetch_pbp_data_def try_fetch_def import_pbp_data_def
      LATEST_AVAILABLE_SEASON_def)

theorem fetch_single_fallback_witness:
  "fetch_pbp_data upstream_2024_only 2025 [] = (Inr g1_plays, [2025, 2024]) \<and>
   fetch_pbp_data upstream_empty 2025 [] = (Inr no_plays, [2025, 2024]) \<and>
   fetch_pbp_data upstream_2024_only 2024 [2023] = (Inr g1_plays, [2023, 2024])"
proof -
  have a: "\<exists>e. upstream_2024_only (length ([]::int list)) 2025 = Inl e"
    by (simp add: upstream_2024_only_def)
  have b: "\<exists>d. upstream_empty (length ([]::int list)) 2025 = Inr d \<and> frame_empty d"
    by (simp add: upstream_empty_def no_plays_def frame_empty_def)
  have c: "upstream_2024_only (length [2023::int]) 2024 = Inr g1_plays \<and> \<not> frame_empty g1_plays"
    by (simp add: upstream_2024_only_def g1_plays_def frame_empty_def no_columns_def)
  from fetch_single_fallback [of upstream_2024_only "[]" 2025] a
  have 1: "fetch_pbp_data upstream_2024_only 2025 [] = (Inr g1_plays, [2025, 2024])"
    by (simp add: upstream_2024_only_def)
  from fetch_single_fallback [of upstream_empty "[]" 2025] b
  have 2: "fetch_pbp_data upstream_empty 2025 [] = (Inr no_plays, [2025, 2024])"
    by (simp add: upstream_empty_def)
  from fetch_single_fallback [of upstream_2024_only "[2023]" 2024] c
  have 3: "fetch_pbp_data upstream_2024_only 2024 [2023] = (Inr g1_plays, [2023, 2024])"
    by simp
  from 1 2 3 show ?thesis by blast
qed

text \<open>
  Claim C8 as stated fails when the upstream source is down: the request for the fallback
  season raises too, and fetch_pbp_data ends with that exception.
\<close>

theorem fetch_fallback_error_propagates:
  "upstream_down 0 2025 = Inl (Exception ''connection refused'') \<and>
   fetch_pbp_data upstream_down 2025 [] =
     (Inl (Exception ''connection refused''), [2025, 2024]) \<and>
   isl (fst (fetch_pbp_data upstream_down 2025 []))"
  by (simp add: fetch_pbp_data_def try_fetch_def import_pbp_data_def upstream_down_def
      LATEST_AVAILABLE_SEASON_def)

end
